theory Spec2Isabelle
  imports Complex_Main "HOL-Library.Sublist"
begin

section \<open>PharmaGuard: the analysis request lifecycle of App.jsx\<close>

text \<open>
  The component \<^verbatim>\<open>App\<close> of \<^verbatim>\<open>src/App.jsx\<close> keeps five state slots
  (\<^verbatim>\<open>file\<close>, \<^verbatim>\<open>drugs\<close>, \<^verbatim>\<open>results\<close>, \<^verbatim>\<open>loading\<close>, \<^verbatim>\<open>error\<close>) and changes them in
  four handlers: \<^verbatim>\<open>onDrop\<close>, the \<^verbatim>\<open>onChange\<close> of the drug field, \<^verbatim>\<open>handleAnalyze\<close>
  and the continuation of \<^verbatim>\<open>handleAnalyze\<close> after its \<^verbatim>\<open>await\<close>. Each handler is a
  function from the state to the new state; the remote service and the JavaScript
  exceptions are values.
\<close>

subsection \<open>Strings\<close>

text \<open>
  A string is a list of code units, of which the ASCII range is modelled: there
  \<^verbatim>\<open>String.prototype.toUpperCase\<close> maps \<^verbatim>\<open>a\<close>..\<^verbatim>\<open>z\<close> (97..122) to \<^verbatim>\<open>A\<close>..\<^verbatim>\<open>Z\<close> and
  leaves every other code unit as it is, and the white space that
  \<^verbatim>\<open>String.prototype.trim\<close> removes is TAB, LF, VT, FF, CR and SPACE.
\<close>

definition isLowerCase :: "char \<Rightarrow> bool" where
  "isLowerCase c = (97 \<le> (of_char c :: nat) \<and> (of_char c :: nat) \<le> 122)"


definition toUpperChar :: "char \<Rightarrow> char" where
  "toUpperChar c = (if isLowerCase c then char_of ((of_char c :: nat) - 32) else c)"


definition toUpperCase :: "string \<Rightarrow> string" where
  "toUpperCase s = map toUpperChar s"

definition isWhiteSpace :: "char \<Rightarrow> bool" where
  "isWhiteSpace c = ((of_char c :: nat) \<in> {9, 10, 11, 12, 13, 32})"

definition trim :: "string \<Rightarrow> string" where
  "trim s = rev (dropWhile isWhiteSpace (rev (dropWhile isWhiteSpace s)))"

subsection \<open>JavaScript values\<close>

text \<open>
  What \<^verbatim>\<open>response.json()\<close> resolves to, and what a property access yields. A number
  is identified by the decimal text that \<^verbatim>\<open>Number::toString\<close> prints for it, which is
  all the handlers need of it (its truth value and its coercion to a string); the
  zero prints as \<^verbatim>\<open>0\<close>. The arithmetic on the confidence score is modelled apart, on
  the rational numbers. An object is the list of its properties in order.
\<close>

datatype jsval =
    JUndefined
  | JNull
  | JBool bool
  | JNum string
  | JStr string
  | JArr "jsval list"
  | JObj "(string \<times> jsval) list"

text \<open>\<^verbatim>\<open>ToBoolean\<close>: the operand test of \<^verbatim>\<open>||\<close>.\<close>

fun truthy :: "jsval \<Rightarrow> bool" where
  "truthy JUndefined = False"
| "truthy JNull = False"
| "truthy (JBool b) = b"
| "truthy (JNum t) = (t \<noteq> ''0'')"
| "truthy (JStr s) = (s \<noteq> [])"
| "truthy (JArr xs) = True"
| "truthy (JObj kvs) = True"

definition joinWith :: "string \<Rightarrow> string list \<Rightarrow> string" where
  "joinWith sep xs = (case xs of [] \<Rightarrow> [] | y # ys \<Rightarrow> y @ concat (map (\<lambda>z. sep @ z) ys))"

text \<open>
  \<^verbatim>\<open>ToString\<close>: an array is joined with commas, an undefined or null element printing as
  the empty string; an object prints as \<^verbatim>\<open>[object Object]\<close>.
\<close>

fun ToString :: "jsval \<Rightarrow> string" where
  "ToString JUndefined = ''undefined''"
| "ToString JNull = ''null''"
| "ToString (JBool b) = (if b then ''true'' else ''false'')"
| "ToString (JNum t) = t"
| "ToString (JStr s) = s"
| "ToString (JArr xs) =
     joinWith '','' (map (\<lambda>x. if x = JUndefined \<or> x = JNull then [] else ToString x) xs)"
| "ToString (JObj kvs) = ''[object Object]''"

text \<open>
  The message of \<^verbatim>\<open>new Error(v)\<close>: \<^verbatim>\<open>ToString(v)\<close>, and the empty message of the
  prototype when \<^verbatim>\<open>v\<close> is undefined.
\<close>

definition Error_message :: "jsval \<Rightarrow> string" where
  "Error_message v = (if v = JUndefined then [] else ToString v)"

text \<open>
  The message of the TypeError that reading a property of \<^verbatim>\<open>null\<close> or \<^verbatim>\<open>undefined\<close>
  throws, in V8's wording.
\<close>

definition cannot_read_message :: "jsval \<Rightarrow> string \<Rightarrow> string" where
  "cannot_read_message v p =
     ''Cannot read properties of '' @ ToString v @ '' (reading '' @ [CHR 39] @ p @ [CHR 39] @ '')''"

text \<open>
  \<^verbatim>\<open>v.p\<close> for a property name \<^verbatim>\<open>p\<close> that no prototype defines (as \<^verbatim>\<open>detail\<close>): the own
  property of an object, undefined on every other value but \<^verbatim>\<open>null\<close> and
  \<^verbatim>\<open>undefined\<close>, where the access throws (\<open>Inl\<close> the message).
\<close>

fun getProp :: "jsval \<Rightarrow> string \<Rightarrow> string + jsval" where
  "getProp JUndefined p = Inl (cannot_read_message JUndefined p)"
| "getProp JNull p = Inl (cannot_read_message JNull p)"
| "getProp (JObj kvs) p = Inr (case map_of kvs p of None \<Rightarrow> JUndefined | Some v \<Rightarrow> v)"
| "getProp v p = Inr JUndefined"


subsection \<open>The state of the component\<close>

text \<open>A \<^verbatim>\<open>File\<close>: its name, its size in bytes and its declared media type.\<close>

record candidate =
  file_name :: string
  file_size :: nat
  file_type :: string

text \<open>The five \<^verbatim>\<open>useState\<close> slots (\<open>file'\<close> is the slot \<^verbatim>\<open>file\<close>); \<open>None\<close> is \<^verbatim>\<open>null\<close>, or
  the \<^verbatim>\<open>undefined\<close> that \<^verbatim>\<open>setFile(acceptedFiles[0])\<close> can store, which is falsy too.\<close>

record state =
  file' :: "candidate option"
  drugs :: string
  results :: "jsval list option"
  loading :: bool
  error :: "string option"

definition init :: state where
  "init = \<lparr>file' = None, drugs = [], results = None, loading = False, error = None\<rparr>"

subsection \<open>Presentation helpers\<close>

text \<open>\<^verbatim>\<open>getRiskColor\<close>: a \<^verbatim>\<open>switch\<close>, which compares with \<^verbatim>\<open>===\<close>.\<close>

definition getRiskColor :: "jsval \<Rightarrow> string" where
  "getRiskColor label =
     (if label = JStr ''Safe'' then ''bg-green-100 border-green-500 text-green-900''
      else if label = JStr ''Adjust Dosage'' then ''bg-yellow-100 border-yellow-500 text-yellow-900''
      else if label = JStr ''Toxic'' \<or> label = JStr ''Ineffective''
        then ''bg-red-100 border-red-500 text-red-900''
      else ''bg-gray-100 border-gray-500 text-gray-900'')"

subsection \<open>The confidence percentage\<close>

text \<open>
  The markup prints \<^verbatim>\<open>(result.risk_assessment.confidence_score * 100).toFixed(0)\<close>
  followed by \<^verbatim>\<open>%\<close>. A finite double is the rational number it denotes, and \<^verbatim>\<open>*\<close> is the
  multiplication of IEEE 754 binary64: the exact product, rounded to the nearest
  double, a tie to the one with the even significand.
\<close>

text \<open>The number of binary digits of a natural number.\<close>

fun bit_length :: "nat \<Rightarrow> nat" where
  "bit_length n = (if n = 0 then 0 else Suc (bit_length (n div 2)))"

declare bit_length.simps [simp del]

text \<open>The binary exponent of a positive \<open>x\<close>: the \<open>e\<close> with \<open>2 powi e \<le> x < 2 powi (e + 1)\<close>.\<close>

definition exponent :: "rat \<Rightarrow> int" where
  "exponent x =
     (if 1 \<le> x then int (bit_length (nat \<lfloor>x\<rfloor>)) - 1
      else - int (bit_length (nat (\<lceil>1 / x\<rceil> - 1))))"

definition roundTiesToEven :: "rat \<Rightarrow> int" where
  "roundTiesToEven q =
     (let f = \<lfloor>q\<rfloor>; r = q - of_int f in
      if r < 1 / 2 then f else if 1 / 2 < r then f + 1 else if even f then f else f + 1)"

text \<open>
  Rounding to binary64: 53 significant bits, so the unit in the last place of a number
  of exponent \<open>e\<close> is \<open>2 powi (e - 52)\<close>; below the least normal exponent -1022 the
  spacing stays that of the subnormal numbers. A result of magnitude \<open>2 ^ 1024\<close> or more
  stands for an infinity.
\<close>

definition roundToDouble :: "rat \<Rightarrow> rat" where
  "roundToDouble x =
     (if x = 0 then 0
      else let e = max (exponent \<bar>x\<bar>) (- 1022); ulp = 2 powi (e - 52) in
        sgn x * of_int (roundTiesToEven (\<bar>x\<bar> / ulp)) * ulp)"

definition double_times :: "rat \<Rightarrow> rat \<Rightarrow> rat" where
  "double_times a b = roundToDouble (a * b)"

text \<open>The decimal digits of a natural number.\<close>

fun decimal :: "nat \<Rightarrow> string" where
  "decimal n =
     (if n < 10 then [char_of (48 + n)] else decimal (n div 10) @ [char_of (48 + n mod 10)])"

declare decimal.simps [simp del]

text \<open>
  \<^verbatim>\<open>Number.prototype.toFixed(0)\<close>: for \<open>x\<close> below \<open>10 ^ 21\<close> in magnitude, the sign and
  the digits of the integer \<open>n\<close> for which \<open>n - \<bar>x\<bar>\<close> is closest to zero, the larger \<open>n\<close>
  if there are two. \<open>None\<close> stands for the other outputs (the exponential notation of
  a larger number, and \<^verbatim>\<open>Infinity\<close>), which are not modelled.
\<close>

definition toFixed0 :: "rat \<Rightarrow> string option" where
  "toFixed0 x =
     (if 10 ^ 21 \<le> \<bar>x\<bar> then None
      else Some ((if x < 0 then ''-'' else []) @ decimal (nat \<lfloor>\<bar>x\<bar> + 1 / 2\<rfloor>)))"

definition confidence_text :: "rat \<Rightarrow> string option" where
  "confidence_text score = map_option (\<lambda>d. d @ ''%'') (toFixed0 (double_times score 100))"

subsection \<open>The handlers\<close>

text \<open>The \<^verbatim>\<open>onChange\<close> of the drug field: \<^verbatim>\<open>setDrugs(e.target.value.toUpperCase())\<close>.\<close>

definition onChange :: "string \<Rightarrow> state \<Rightarrow> state" where
  "onChange v s = s\<lparr>drugs := toUpperCase v\<rparr>"

text \<open>
  \<^verbatim>\<open>onDrop(acceptedFiles, rejectedFiles)\<close>. \<^verbatim>\<open>acceptedFiles[0]\<close> of an empty array is
  undefined.
\<close>

definition rejection_message :: string where
  "rejection_message = ''Please upload a valid .vcf file under 5MB.''"

definition onDrop :: "candidate list \<Rightarrow> candidate list \<Rightarrow> state \<Rightarrow> state" where
  "onDrop acceptedFiles rejectedFiles s =
     (let s1 = s\<lparr>error := None\<rparr> in
      if length rejectedFiles > 0 then s1\<lparr>error := Some rejection_message\<rparr>
      else s1\<lparr>file' := (case acceptedFiles of [] \<Rightarrow> None | f # fs \<Rightarrow> Some f)\<rparr>)"

text \<open>
  \<^verbatim>\<open>handleAnalyze\<close> up to its first \<^verbatim>\<open>await\<close>: the two guards, each with its early
  return, then the three setters and the request that \<^verbatim>\<open>fetch\<close> sends. It either
  returns, or is suspended on the request.
\<close>

record request =
  url :: string
  http_method :: string
  form_file :: candidate
  form_drugs :: string

datatype suspension = Returned state | Awaiting state request

definition handleAnalyze_start :: "state \<Rightarrow> suspension" where
  "handleAnalyze_start s =
     (case file' s of
        None \<Rightarrow> Returned (s\<lparr>error := Some ''Please upload a VCF file first.''\<rparr>)
      | Some f \<Rightarrow>
          if trim (drugs s) = [] then
            Returned (s\<lparr>error := Some ''Please enter at least one drug name.''\<rparr>)
          else
            Awaiting (s\<lparr>loading := True, error := None, results := None\<rparr>)
              \<lparr>url = ''http://localhost:8000/analyze'', http_method = ''POST'',
               form_file = f, form_drugs = drugs s\<rparr>)"

text \<open>
  What the remote service and the network do with the request: \<^verbatim>\<open>fetch\<close> rejects with an
  error of some message, or resolves to a response with its \<^verbatim>\<open>ok\<close> flag, whose
  \<^verbatim>\<open>json()\<close> rejects with an error of some message or resolves to a value.
\<close>

datatype json_outcome = JsonRejects string | JsonResolves jsval

datatype fetch_outcome = FetchRejects string | FetchResolves bool json_outcome

definition server_error_message :: string where
  "server_error_message = ''Server error. Make sure your Python backend is running!''"

text \<open>
  The body of the \<^verbatim>\<open>try\<close>: \<open>Inl\<close> the message of the error thrown in it, \<open>Inr\<close> the
  value of \<^verbatim>\<open>data\<close>. On a response that is not ok, \<^verbatim>\<open>errData\<close> is the parsed body, or
  \<^verbatim>\<open>{}\<close> when \<^verbatim>\<open>json()\<close> rejects.
\<close>

definition try_block :: "fetch_outcome \<Rightarrow> string + jsval" where
  "try_block out =
     (case out of
        FetchRejects m \<Rightarrow> Inl m
      | FetchResolves ok body \<Rightarrow>
          if \<not> ok then
            (let errData = (case body of JsonRejects m \<Rightarrow> JObj [] | JsonResolves v \<Rightarrow> v) in
             case getProp errData ''detail'' of
               Inl m \<Rightarrow> Inl m
             | Inr detail \<Rightarrow>
                 Inl (Error_message (if truthy detail then detail else JStr server_error_message)))
          else
            (case body of JsonRejects m \<Rightarrow> Inl m | JsonResolves data \<Rightarrow> Inr data))"

text \<open>
  The continuation of \<^verbatim>\<open>handleAnalyze\<close> once the request has settled: \<^verbatim>\<open>setResults\<close> of
  the array or of the one-element array, or the \<^verbatim>\<open>catch\<close>, then the \<^verbatim>\<open>finally\<close>.
\<close>

definition handleAnalyze_resume :: "state \<Rightarrow> fetch_outcome \<Rightarrow> state" where
  "handleAnalyze_resume s out =
     (case try_block out of
        Inr data \<Rightarrow> s\<lparr>results := Some (case data of JArr xs \<Rightarrow> xs | _ \<Rightarrow> [data])\<rparr>
      | Inl m \<Rightarrow> s\<lparr>error := Some m\<rparr>)
     \<lparr>loading := False\<rparr>"

text \<open>
  One whole call of \<^verbatim>\<open>handleAnalyze\<close> with no other event during the \<^verbatim>\<open>await\<close>, against
  a remote that answers a request with an outcome: the final state and the requests
  sent.
\<close>

definition handleAnalyze :: "(request \<Rightarrow> fetch_outcome) \<Rightarrow> state \<Rightarrow> state \<times> request list" where
  "handleAnalyze remote s =
     (case handleAnalyze_start s of
        Returned s1 \<Rightarrow> (s1, [])
      | Awaiting s1 req \<Rightarrow> (handleAnalyze_resume s1 (remote req), [req]))"

subsection \<open>The events of a session\<close>

text \<open>
  The events that reach the component, one at a time: a drop, a change of the drug
  field, a click on the button (which is \<^verbatim>\<open>disabled={loading}\<close>, so a click while
  loading does nothing), and the settling of the request in flight (there is one
  exactly while \<^verbatim>\<open>loading\<close> is set).
\<close>

datatype event =
    Drop "candidate list" "candidate list"
  | Change string
  | Click
  | Settle fetch_outcome

fun step :: "state \<Rightarrow> event \<Rightarrow> state" where
  "step s (Drop acceptedFiles rejectedFiles) = onDrop acceptedFiles rejectedFiles s"
| "step s (Change v) = onChange v s"
| "step s Click =
     (if loading s then s
      else case handleAnalyze_start s of Returned s1 \<Rightarrow> s1 | Awaiting s1 req \<Rightarrow> s1)"
| "step s (Settle out) = (if loading s then handleAnalyze_resume s out else s)"

definition run :: "event list \<Rightarrow> state" where
  "run evs = foldl step init evs"

subsection \<open>The specification's reading of two operations\<close>

text \<open>
  The message that the specification prescribes for a failed request, in its words:
  ``a server-supplied explanation field if present and parseable, else a generic
  "server unreachable or malformed response" message''. It is compared with what
  \<open>handleAnalyze_resume\<close> stores.
\<close>

definition spec_message :: "fetch_outcome \<Rightarrow> string" where
  "spec_message out =
     (case out of
        FetchResolves ok (JsonResolves (JObj kvs)) \<Rightarrow>
          (case map_of kvs ''detail'' of Some (JStr d) \<Rightarrow> d | _ \<Rightarrow> server_error_message)
      | _ \<Rightarrow> server_error_message)"

text \<open>
  The options that \<^verbatim>\<open>App\<close> passes to \<^verbatim>\<open>useDropzone\<close>: \<^verbatim>\<open>maxSize\<close> and the media types
  and extensions of \<^verbatim>\<open>accept\<close>.
\<close>

definition maxSize :: nat where
  "maxSize = 5242880"

definition accept_types :: "(string \<times> string list) list" where
  "accept_types = [(''text/vcard'', [''.vcf'']), (''application/octet-stream'', [''.vcf''])]"

text \<open>
  Modelled from the spec: the type test of the hosting drop widget (\<^verbatim>\<open>useDropzone\<close> of
  the package react-dropzone), whose code is not part of the sources. By the
  specification (4.1) the media type or extension must match a VCF-family type: the
  extension \<^verbatim>\<open>.vcf\<close>, or the media type \<^verbatim>\<open>text/vcard\<close> or \<^verbatim>\<open>application/octet-stream\<close>.
\<close>

definition vcf_family :: "candidate \<Rightarrow> bool" where
  "vcf_family c =
     (list_ex (\<lambda>ext. suffix ext (file_name c)) (concat (map snd accept_types))
      \<or> file_type c \<in> set (map fst accept_types))"

datatype intake = Accepted candidate | Rejected string

text \<open>
  Modelled from the spec: the filter of the widget, which sorts a dropped file into
  \<^verbatim>\<open>acceptedFiles\<close> or \<^verbatim>\<open>rejectedFiles\<close> before it calls \<^verbatim>\<open>onDrop\<close>; its code is not part
  of the sources. By the specification (4.1) it checks, in order, that the candidate is
  present, that its byte size is at most 5,242,880 and that its type is of the VCF
  family, and a rejection yields a single reason: that is the message which \<^verbatim>\<open>onDrop\<close>
  stores.
\<close>

definition accept :: "candidate option \<Rightarrow> intake" where
  "accept c =
     (case c of
        None \<Rightarrow> Rejected rejection_message
      | Some f \<Rightarrow>
          if maxSize < file_size f then Rejected rejection_message
          else if \<not> vcf_family f then Rejected rejection_message
          else Accepted f)"

text \<open>
  Modelled from the spec: the ``file selected'' event of a candidate, in which the
  widget (not part of the sources) hands \<^verbatim>\<open>onDrop\<close> the candidate in the list that the
  filter puts it in.
\<close>

definition file_selected :: "candidate \<Rightarrow> state \<Rightarrow> state" where
  "file_selected c s =
     (case accept (Some c) of
        Accepted f \<Rightarrow> onDrop [f] [] s
      | Rejected reason \<Rightarrow> onDrop [] [c] s)"

subsection \<open>Sample data\<close>

text \<open>A staged file and a result record, for the concrete instances below.\<close>

definition patient_vcf :: candidate where
  "patient_vcf = \<lparr>file_name = ''patient.vcf'', file_size = 2048, file_type = ''text/vcard''\<rparr>"

definition warfarin_record :: jsval where
  "warfarin_record =
     JObj [(''drug'', JStr ''WARFARIN''),
           (''risk_assessment'',
              JObj [(''risk_label'', JStr ''Adjust Dosage''), (''severity'', JStr ''moderate''),
                    (''confidence_score'', JNum ''0.873'')])]"

section \<open>Properties\<close>

subsection \<open>Strings\<close>









subsection \<open>File intake\<close>

lemma vcf_family_iff:
  "vcf_family c \<longleftrightarrow>
     suffix ''.vcf'' (file_name c) \<or> file_type c = ''text/vcard''
     \<or> file_type c = ''application/octet-stream''"
  by (auto simp: vcf_family_def accept_types_def)

text \<open>
  Claim C6. A candidate of more than 5,242,880 bytes is rejected whatever its type, and
  a candidate whose name does not end in \<^verbatim>\<open>.vcf\<close> and whose media type is neither
  \<^verbatim>\<open>text/vcard\<close> nor \<^verbatim>\<open>application/octet-stream\<close> is rejected whatever its size. A
  rejection is a value \<open>Rejected reason\<close> of the outcome type, with the one reason
  there is, and the ``file selected'' event of a rejected candidate stores that reason
  in the error slot and changes nothing else.
\<close>

theorem accept_rejects:
  "(5242880 < file_size c \<longrightarrow> accept (Some c) = Rejected rejection_message)
   \<and> (\<not> suffix ''.vcf'' (file_name c) \<and> file_type c \<noteq> ''text/vcard''
        \<and> file_type c \<noteq> ''application/octet-stream''
      \<longrightarrow> accept (Some c) = Rejected rejection_message)
   \<and> (\<forall>reason. accept x = Rejected reason \<longrightarrow> reason = rejection_message)
   \<and> (\<forall>reason. accept (Some c) = Rejected reason \<longrightarrow>
        file_selected c s = s\<lparr>error := Some reason\<rparr>)"
  by (auto simp: accept_def vcf_family_iff maxSize_def file_selected_def onDrop_def
      split: option.splits if_splits)

theorem accept_rejects_witness:
  "5242880 < file_size \<lparr>file_name = ''genome.vcf'', file_size = 5242881, file_type = ''text/vcard''\<rparr>
   \<and> accept (Some \<lparr>file_name = ''genome.vcf'', file_size = 5242881, file_type = ''text/vcard''\<rparr>)
       = Rejected rejection_message
   \<and> \<not> suffix ''.vcf'' (file_name \<lparr>file_name = ''notes.txt'', file_size = 10, file_type = ''text/plain''\<rparr>)
   \<and> accept (Some \<lparr>file_name = ''notes.txt'', file_size = 10, file_type = ''text/plain''\<rparr>)
       = Rejected rejection_message
   \<and> file_selected \<lparr>file_name = ''notes.txt'', file_size = 10, file_type = ''text/plain''\<rparr> init
       = init\<lparr>error := Some rejection_message\<rparr>"
  using accept_rejects [of "\<lparr>file_name = ''genome.vcf'', file_size = 5242881, file_type = ''text/vcard''\<rparr>"]
    accept_rejects [of "\<lparr>file_name = ''notes.txt'', file_size = 10, file_type = ''text/plain''\<rparr>"
       "Some \<lparr>file_name = ''notes.txt'', file_size = 10, file_type = ''text/plain''\<rparr>" init]
  by (simp add: suffix_def)

text \<open>
  Claim C10. A drop with a rejected file leaves the staged file, the drug text, the
  results and the loading flag as they are and puts the rejection message in the error
  slot, whatever was there; a drop with no rejected file and an accepted file \<open>f\<close>
  stages \<open>f\<close> and clears the error slot; the results are the same after every drop.
\<close>

theorem onDrop_frame:
  "(rejectedFiles \<noteq> [] \<longrightarrow>
      onDrop acceptedFiles rejectedFiles s = s\<lparr>error := Some rejection_message\<rparr>)
   \<and> (rejectedFiles = [] \<longrightarrow>
      onDrop (f # fs) rejectedFiles s = s\<lparr>error := None, file' := Some f\<rparr>)
   \<and> results (onDrop acceptedFiles rejectedFiles s) = results s"
  by (simp add: onDrop_def Let_def)

theorem onDrop_frame_witness:
  "[\<lparr>file_name = ''big.vcf'', file_size = 6000000, file_type = ''text/vcard''\<rparr>] \<noteq> []
   \<and> onDrop [] [\<lparr>file_name = ''big.vcf'', file_size = 6000000, file_type = ''text/vcard''\<rparr>]
        (init\<lparr>file' := Some \<lparr>file_name = ''p.vcf'', file_size = 10, file_type = ''text/vcard''\<rparr>,
              results := Some [JNull], error := Some ''old''\<rparr>)
       = init\<lparr>file' := Some \<lparr>file_name = ''p.vcf'', file_size = 10, file_type = ''text/vcard''\<rparr>,
              results := Some [JNull], error := Some rejection_message\<rparr>
   \<and> onDrop [\<lparr>file_name = ''q.vcf'', file_size = 20, file_type = ''text/vcard''\<rparr>] []
        (init\<lparr>file' := Some \<lparr>file_name = ''p.vcf'', file_size = 10, file_type = ''text/vcard''\<rparr>,
              results := Some [JNull], error := Some ''old''\<rparr>)
       = init\<lparr>file' := Some \<lparr>file_name = ''q.vcf'', file_size = 20, file_type = ''text/vcard''\<rparr>,
              results := Some [JNull], error := None\<rparr>"
  using onDrop_frame [of "[\<lparr>file_name = ''big.vcf'', file_size = 6000000, file_type = ''text/vcard''\<rparr>]"
      "[]" "init\<lparr>file' := Some \<lparr>file_name = ''p.vcf'', file_size = 10, file_type = ''text/vcard''\<rparr>,
              results := Some [JNull], error := Some ''old''\<rparr>"]
    onDrop_frame [of "[]" "[\<lparr>file_name = ''q.vcf'', file_size = 20, file_type = ''text/vcard''\<rparr>]"
      "init\<lparr>file' := Some \<lparr>file_name = ''p.vcf'', file_size = 10, file_type = ''text/vcard''\<rparr>,
              results := Some [JNull], error := Some ''old''\<rparr>"
      "\<lparr>file_name = ''q.vcf'', file_size = 20, file_type = ''text/vcard''\<rparr>" "[]"]
  by (simp add: init_def)

subsection \<open>Risk classes\<close>

text \<open>
  Claim C5. \<open>getRiskColor\<close> is a function of the label alone, defined on every value:
  \<^verbatim>\<open>Safe\<close> has the green style (class low), \<^verbatim>\<open>Adjust Dosage\<close> the yellow style (medium),
  \<^verbatim>\<open>Toxic\<close> and \<^verbatim>\<open>Ineffective\<close> the red style (high), and every other value, as the label
  \<^verbatim>\<open>Unknown-Label\<close> or a value that is no string, the gray style (unknown); the four
  styles differ from each other.
\<close>

theorem getRiskColor_classes:
  "getRiskColor (JStr ''Safe'') = ''bg-green-100 border-green-500 text-green-900''
   \<and> getRiskColor (JStr ''Adjust Dosage'') = ''bg-yellow-100 border-yellow-500 text-yellow-900''
   \<and> getRiskColor (JStr ''Toxic'') = ''bg-red-100 border-red-500 text-red-900''
   \<and> getRiskColor (JStr ''Ineffective'') = ''bg-red-100 border-red-500 text-red-900''
   \<and> getRiskColor (JStr ''Unknown-Label'') = ''bg-gray-100 border-gray-500 text-gray-900''
   \<and> (label \<notin> {JStr ''Safe'', JStr ''Adjust Dosage'', JStr ''Toxic'', JStr ''Ineffective''}
        \<longrightarrow> getRiskColor label = ''bg-gray-100 border-gray-500 text-gray-900'')
   \<and> distinct [getRiskColor (JStr ''Safe''), getRiskColor (JStr ''Adjust Dosage''),
        getRiskColor (JStr ''Toxic''), getRiskColor JNull]"
  by (simp add: getRiskColor_def)

theorem getRiskColor_classes_witness:
  "JStr ''Moderate'' \<notin> {JStr ''Safe'', JStr ''Adjust Dosage'', JStr ''Toxic'', JStr ''Ineffective''}
   \<and> getRiskColor (JStr ''Moderate'') = ''bg-gray-100 border-gray-500 text-gray-900''"
  using getRiskColor_classes [of "JStr ''Moderate''"] by simp

subsection \<open>The request lifecycle\<close>




lemma trim_WARFARIN: "trim ''WARFARIN'' = ''WARFARIN''"
  by (simp add: trim_def isWhiteSpace_def)


text \<open>
  Claim C1, as stated, fails. After a successful analyze the user blanks the drug field
  and clicks again: the guard stores its message and returns, and \<^verbatim>\<open>setResults\<close> is not
  called on that path, so the state reached is not loading and holds the earlier
  results together with the error message.
\<close>

theorem result_beside_error_counterexample:
  "\<not> loading (run [Drop [patient_vcf] [], Change ''warfarin'', Click,
                   Settle (FetchResolves True (JsonResolves warfarin_record)),
                   Change '' '', Click])
   \<and> results (run [Drop [patient_vcf] [], Change ''warfarin'', Click,
                   Settle (FetchResolves True (JsonResolves warfarin_record)),
                   Change '' '', Click]) = Some [warfarin_record]
   \<and> error (run [Drop [patient_vcf] [], Change ''warfarin'', Click,
                   Settle (FetchResolves True (JsonResolves warfarin_record)),
                   Change '' '', Click]) = Some ''Please enter at least one drug name.''"
proof -
  have up: "toUpperCase ''warfarin'' = ''WARFARIN''" "toUpperCase '' '' = '' ''"
    by (simp_all add: toUpperCase_def toUpperChar_def isLowerCase_def char_of_eq_iff)
  have tr: "trim '' '' = []"
    by (simp add: trim_def isWhiteSpace_def)
  have "run [Drop [patient_vcf] [], Change ''warfarin'', Click,
                   Settle (FetchResolves True (JsonResolves warfarin_record)),
                   Change '' '', Click]
     = init\<lparr>file' := Some patient_vcf, drugs := '' '', results := Some [warfarin_record],
            error := Some ''Please enter at least one drug name.''\<rparr>"
    by (simp add: run_def init_def onDrop_def onChange_def up tr trim_WARFARIN
        handleAnalyze_start_def handleAnalyze_resume_def try_block_def warfarin_record_def)
  then show ?thesis
    by (simp add: init_def)
qed

text \<open>
  Claim C1, amended. After one analyze, with no other event while it waits: if a
  request was sent, then once it has settled exactly one of the results slot and the
  error slot is set, whatever the outcome; if a local check failed, the error slot is
  set and the results slot is what it was before, so that earlier results can stand
  beside the message.
\<close>

theorem analyze_outcome_exclusive:
  "(snd (handleAnalyze remote s) \<noteq> [] \<longrightarrow>
      (results (fst (handleAnalyze remote s)) \<noteq> None)
        \<noteq> (error (fst (handleAnalyze remote s)) \<noteq> None))
   \<and> (snd (handleAnalyze remote s) = [] \<longrightarrow>
      error (fst (handleAnalyze remote s)) \<noteq> None
      \<and> results (fst (handleAnalyze remote s)) = results s)"
  by (auto simp: handleAnalyze_def handleAnalyze_start_def handleAnalyze_resume_def
      split: option.splits if_splits sum.splits)

theorem analyze_outcome_exclusive_witness:
  "snd (handleAnalyze (\<lambda>req. FetchResolves False (JsonRejects ''Unexpected token''))
          (init\<lparr>file' := Some patient_vcf, drugs := ''WARFARIN'', results := Some [JNull]\<rparr>)) \<noteq> []
   \<and> results (fst (handleAnalyze (\<lambda>req. FetchResolves False (JsonRejects ''Unexpected token''))
          (init\<lparr>file' := Some patient_vcf, drugs := ''WARFARIN'', results := Some [JNull]\<rparr>))) = None
   \<and> error (fst (handleAnalyze (\<lambda>req. FetchResolves False (JsonRejects ''Unexpected token''))
          (init\<lparr>file' := Some patient_vcf, drugs := ''WARFARIN'', results := Some [JNull]\<rparr>))) \<noteq> None
   \<and> snd (handleAnalyze (\<lambda>req. FetchResolves False (JsonRejects ''Unexpected token''))
          (init\<lparr>results := Some [JNull]\<rparr>)) = []
   \<and> results (fst (handleAnalyze (\<lambda>req. FetchResolves False (JsonRejects ''Unexpected token''))
          (init\<lparr>results := Some [JNull]\<rparr>))) = Some [JNull]
   \<and> error (fst (handleAnalyze (\<lambda>req. FetchResolves False (JsonRejects ''Unexpected token''))
          (init\<lparr>results := Some [JNull]\<rparr>))) \<noteq> None"
proof -
  have sent: "snd (handleAnalyze (\<lambda>req. FetchResolves False (JsonRejects ''Unexpected token''))
          (init\<lparr>file' := Some patient_vcf, drugs := ''WARFARIN'', results := Some [JNull]\<rparr>)) \<noteq> []"
    by (simp add: handleAnalyze_def handleAnalyze_start_def trim_WARFARIN init_def)
  have kept: "snd (handleAnalyze (\<lambda>req. FetchResolves False (JsonRejects ''Unexpected token''))
          (init\<lparr>results := Some [JNull]\<rparr>)) = []"
    by (simp add: handleAnalyze_def handleAnalyze_start_def init_def)
  have cleared: "results (fst (handleAnalyze (\<lambda>req. FetchResolves False (JsonRejects ''Unexpected token''))
          (init\<lparr>file' := Some patient_vcf, drugs := ''WARFARIN'', results := Some [JNull]\<rparr>))) = None"
    by (simp add: handleAnalyze_def handleAnalyze_start_def handleAnalyze_resume_def
        try_block_def Error_message_def trim_WARFARIN init_def)
  from sent kept cleared
    analyze_outcome_exclusive [of "\<lambda>req. FetchResolves False (JsonRejects ''Unexpected token'')"
      "init\<lparr>file' := Some patient_vcf, drugs := ''WARFARIN'', results := Some [JNull]\<rparr>"]
    analyze_outcome_exclusive [of "\<lambda>req. FetchResolves False (JsonRejects ''Unexpected token'')"
      "init\<lparr>results := Some [JNull]\<rparr>"]
  show ?thesis
    by (simp add: init_def)
qed

text \<open>
  Claim C4, as stated, fails. When \<^verbatim>\<open>fetch\<close> itself rejects (the server cannot be
  reached), the \<^verbatim>\<open>catch\<close> stores the message of that error, which is the platform's
  and not the generic message that the specification prescribes where no \<^verbatim>\<open>detail\<close>
  is at hand. And when the body of a response that is not ok has a \<^verbatim>\<open>detail\<close> that is
  no string (here a list of records), what is stored is its coercion to a string,
  which is neither a \<^verbatim>\<open>detail\<close> string nor the generic message.
\<close>

theorem fault_message_counterexample:
  "error (fst (handleAnalyze (\<lambda>req. FetchRejects ''Failed to fetch'')
                 (init\<lparr>file' := Some patient_vcf, drugs := ''WARFARIN''\<rparr>)))
     = Some ''Failed to fetch''
   \<and> error (fst (handleAnalyze (\<lambda>req. FetchRejects ''Failed to fetch'')
                 (init\<lparr>file' := Some patient_vcf, drugs := ''WARFARIN''\<rparr>)))
     \<noteq> Some (spec_message (FetchRejects ''Failed to fetch''))
   \<and> error (fst (handleAnalyze
                 (\<lambda>req. FetchResolves False
                    (JsonResolves (JObj [(''detail'', JArr [JObj [(''msg'', JStr ''field required'')]])])))
                 (init\<lparr>file' := Some patient_vcf, drugs := ''WARFARIN''\<rparr>)))
     = Some ''[object Object]''
   \<and> spec_message (FetchResolves False
         (JsonResolves (JObj [(''detail'', JArr [JObj [(''msg'', JStr ''field required'')]])])))
     = ''Server error. Make sure your Python backend is running!''"
  by (simp add: handleAnalyze_def handleAnalyze_start_def handleAnalyze_resume_def try_block_def
      init_def trim_WARFARIN spec_message_def server_error_message_def Error_message_def
      joinWith_def)

lemma try_block_throws:
  "(\<forall>data. out \<noteq> FetchResolves True (JsonResolves data)) \<Longrightarrow> \<exists>m. try_block out = Inl m"
  by (cases out) (auto simp: try_block_def Let_def split: json_outcome.splits sum.splits)

text \<open>
  Claim C4, amended. Every outcome but an ok response with a parseable body ends with
  one message in the error slot and the loading flag down, and no error leaves the
  handler. The message is: for a response that is not ok, the \<^verbatim>\<open>detail\<close> of the body
  when the body is a record whose \<^verbatim>\<open>detail\<close> is a non-empty string (so
  \<^verbatim>\<open>{"detail":"bad input"}\<close> gives exactly \<^verbatim>\<open>bad input\<close>), and the generic server-error
  message when the body cannot be parsed or its \<^verbatim>\<open>detail\<close> is missing or falsy; for a
  rejected \<^verbatim>\<open>fetch\<close> and for an ok response whose body cannot be parsed, the message of
  that error.
\<close>

theorem analyze_failure_message:
  "handleAnalyze_resume s (FetchRejects m) = s\<lparr>error := Some m, loading := False\<rparr>
   \<and> handleAnalyze_resume s (FetchResolves True (JsonRejects m))
       = s\<lparr>error := Some m, loading := False\<rparr>
   \<and> handleAnalyze_resume s (FetchResolves False (JsonRejects m))
       = s\<lparr>error := Some server_error_message, loading := False\<rparr>
   \<and> (map_of kvs ''detail'' = Some (JStr d) \<and> d \<noteq> [] \<longrightarrow>
        handleAnalyze_resume s (FetchResolves False (JsonResolves (JObj kvs)))
          = s\<lparr>error := Some d, loading := False\<rparr>)
   \<and> ((\<exists>d. getProp v ''detail'' = Inr d \<and> \<not> truthy d) \<longrightarrow>
        handleAnalyze_resume s (FetchResolves False (JsonResolves v))
          = s\<lparr>error := Some server_error_message, loading := False\<rparr>)
   \<and> ((\<forall>data. out \<noteq> FetchResolves True (JsonResolves data)) \<longrightarrow>
        (\<exists>msg. handleAnalyze_resume s out = s\<lparr>error := Some msg, loading := False\<rparr>))"
proof -
  have "(\<forall>data. out \<noteq> FetchResolves True (JsonResolves data)) \<longrightarrow>
        (\<exists>msg. handleAnalyze_resume s out = s\<lparr>error := Some msg, loading := False\<rparr>)"
  proof
    assume "\<forall>data. out \<noteq> FetchResolves True (JsonResolves data)"
    then obtain msg where "try_block out = Inl msg"
      using try_block_throws [of out] by blast
    then have "handleAnalyze_resume s out = s\<lparr>error := Some msg, loading := False\<rparr>"
      by (simp add: handleAnalyze_resume_def)
    then show "\<exists>msg. handleAnalyze_resume s out = s\<lparr>error := Some msg, loading := False\<rparr>"
      by (rule exI)
  qed
  moreover have "(\<exists>d. getProp v ''detail'' = Inr d \<and> \<not> truthy d) \<longrightarrow>
        handleAnalyze_resume s (FetchResolves False (JsonResolves v))
          = s\<lparr>error := Some server_error_message, loading := False\<rparr>"
    by (auto simp: handleAnalyze_resume_def try_block_def Error_message_def)
  moreover have "map_of kvs ''detail'' = Some (JStr d) \<and> d \<noteq> [] \<longrightarrow>
        handleAnalyze_resume s (FetchResolves False (JsonResolves (JObj kvs)))
          = s\<lparr>error := Some d, loading := False\<rparr>"
    by (simp add: handleAnalyze_resume_def try_block_def Error_message_def)
  moreover have "handleAnalyze_resume s (FetchResolves False (JsonRejects m))
       = s\<lparr>error := Some server_error_message, loading := False\<rparr>"
    by (simp add: handleAnalyze_resume_def try_block_def Error_message_def)
  ultimately show ?thesis
    by (simp add: handleAnalyze_resume_def try_block_def)
qed

theorem analyze_failure_message_witness:
  "map_of [(''detail'', JStr ''bad input'')] ''detail'' = Some (JStr ''bad input'')
   \<and> handleAnalyze_resume (init\<lparr>loading := True\<rparr>)
        (FetchResolves False (JsonResolves (JObj [(''detail'', JStr ''bad input'')])))
       = init\<lparr>error := Some ''bad input''\<rparr>
   \<and> getProp (JObj [(''status'', JNum ''500'')]) ''detail'' = Inr JUndefined
   \<and> handleAnalyze_resume (init\<lparr>loading := True\<rparr>)
        (FetchResolves False (JsonResolves (JObj [(''status'', JNum ''500'')])))
       = init\<lparr>error := Some server_error_message\<rparr>
   \<and> (\<exists>msg. handleAnalyze_resume (init\<lparr>loading := True\<rparr>) (FetchResolves False (JsonResolves JNull))
         = init\<lparr>error := Some msg\<rparr>)"
  using analyze_failure_message [of "init\<lparr>loading := True\<rparr>" _
      "[(''detail'', JStr ''bad input'')]" "''bad input''"
      "JObj [(''status'', JNum ''500'')]" "FetchResolves False (JsonResolves JNull)"]
  by (simp add: init_def)

subsection \<open>The confidence percentage\<close>

lemma bit_length_bounds:
  "0 < n \<Longrightarrow> 2 ^ (bit_length n - 1) \<le> n \<and> n < 2 ^ bit_length n"
proof (induction n rule: bit_length.induct)
  case (1 n)
  show ?case
  proof (cases "n div 2 = 0")
    case True
    with "1.prems" have "n = 1" by (simp add: div_eq_0_iff) 
    then show ?thesis
      by (simp add: bit_length.simps [of "Suc 0"] bit_length.simps [of 0])
  next
    case False
    with "1.IH" "1.prems" have ih: "2 ^ (bit_length (n div 2) - 1) \<le> n div 2"
      "n div 2 < 2 ^ bit_length (n div 2)"
      by simp_all
    from False have pos: "0 < bit_length (n div 2)"
      by (simp add: bit_length.simps [of "n div 2"])
    have b: "bit_length n = Suc (bit_length (n div 2))"
      using "1.prems" by (simp add: bit_length.simps [of n])
    from pos have "(2::nat) ^ bit_length (n div 2) = 2 * 2 ^ (bit_length (n div 2) - 1)"
      by (cases "bit_length (n div 2)") simp_all
    with ih(1) have "2 ^ bit_length (n div 2) \<le> n"
      by arith
    moreover from ih(2) have "n < 2 * 2 ^ bit_length (n div 2)"
      by arith
    ultimately show ?thesis
      by (simp add: b)
  qed
qed

lemma exponent_bounds:
  assumes "0 < x"
  shows "2 powi exponent x \<le> x \<and> x < 2 powi (exponent x + 1)"
proof (cases "1 \<le> x")
  case True
  define n where "n = nat \<lfloor>x\<rfloor>"
  from True have n: "0 < n" "rat_of_nat n \<le> x" "x < rat_of_nat n + 1"
    unfolding n_def by (simp_all add: of_nat_nat) linarith+
  from True have e: "exponent x = int (bit_length n) - 1"
    by (simp add: exponent_def n_def)
  from bit_length_bounds [OF n(1)] have b: "2 ^ (bit_length n - 1) \<le> n" "n + 1 \<le> 2 ^ bit_length n"
    by simp_all
  from n(1) have bp: "0 < bit_length n"
    by (simp add: bit_length.simps [of n])
  then have e1: "exponent x = int (bit_length n - 1)" and e2: "exponent x + 1 = int (bit_length n)"
    using e by simp_all
  have "(2::rat) powi exponent x = rat_of_nat (2 ^ (bit_length n - 1))"
    unfolding e1 by simp
  also have "\<dots> \<le> rat_of_nat n"
    using b(1) by (simp only: of_nat_le_iff)
  finally have lo: "2 powi exponent x \<le> x"
    using n(2) by linarith
  have "rat_of_nat (n + 1) \<le> rat_of_nat (2 ^ bit_length n)"
    using b(2) by (simp only: of_nat_le_iff)
  then have "x < rat_of_nat (2 ^ bit_length n)"
    using n(3) by simp
  also have "\<dots> = 2 powi (exponent x + 1)"
    unfolding e2 by simp
  finally show ?thesis
    using lo by simp
next
  case False
  define m where "m = nat (\<lceil>1 / x\<rceil> - 1)"
  from False assms have inv: "1 < 1 / x"
    by (simp add: field_simps)
  then have c: "2 \<le> \<lceil>1 / x\<rceil>"
    by linarith
  then have m: "0 < m" "rat_of_nat m < 1 / x" "1 / x \<le> rat_of_nat m + 1"
    unfolding m_def by (simp_all add: of_nat_nat) linarith+
  from False have e: "exponent x = - int (bit_length m)"
    by (simp add: exponent_def m_def)
  from bit_length_bounds [OF m(1)] have b: "2 ^ (bit_length m - 1) \<le> m" "m + 1 \<le> 2 ^ bit_length m"
    by simp_all
  from m(1) have bp: "0 < bit_length m"
    by (simp add: bit_length.simps [of m])
  have "rat_of_nat (m + 1) \<le> rat_of_nat (2 ^ bit_length m)"
    using b(2) by (simp only: of_nat_le_iff)
  with m(3) have "1 / x \<le> 2 ^ bit_length m"
    by simp
  with assms have "1 / 2 ^ bit_length m \<le> x"
    by (simp add: field_simps)
  moreover have "(2::rat) powi exponent x = 1 / 2 ^ bit_length m"
    unfolding e by (simp add: power_int_minus field_simps)
  ultimately have lo: "2 powi exponent x \<le> x"
    by simp
  have "rat_of_nat (2 ^ (bit_length m - 1)) \<le> rat_of_nat m"
    using b(1) by (simp only: of_nat_le_iff)
  moreover have "rat_of_nat (2 ^ (bit_length m - 1)) = 2 ^ (bit_length m - 1)"
    by simp
  ultimately have "2 ^ (bit_length m - 1) < 1 / x"
    using m(2) by linarith
  with assms have "x < 1 / 2 ^ (bit_length m - 1)"
    by (simp add: field_simps)
  moreover from bp have "exponent x + 1 = - int (bit_length m - 1)"
    using e by simp
  then have "(2::rat) powi (exponent x + 1) = 1 / 2 ^ (bit_length m - 1)"
    by (simp add: power_int_minus field_simps)
  ultimately show ?thesis
    using lo by simp
qed


lemma roundTiesToEven_error: "\<bar>of_int (roundTiesToEven q) - q\<bar> \<le> 1 / 2"
proof -
  have "of_int \<lfloor>q\<rfloor> \<le> q" "q < of_int \<lfloor>q\<rfloor> + 1"
    by linarith+
  then show ?thesis
    by (auto simp: roundTiesToEven_def Let_def)
qed

lemma roundTiesToEven_nonneg: "0 \<le> q \<Longrightarrow> 0 \<le> roundTiesToEven q"
  by (auto simp: roundTiesToEven_def Let_def)

lemma roundToDouble_error:
  "\<bar>roundToDouble x - x\<bar> \<le> 2 powi (max (exponent \<bar>x\<bar>) (- 1022) - 52) / 2"
proof (cases "x = 0")
  case True
  then show ?thesis
    by (simp add: roundToDouble_def)
next
  case False
  define ulp :: rat where "ulp = 2 powi (max (exponent \<bar>x\<bar>) (- 1022) - 52)"
  define n where "n = roundTiesToEven (\<bar>x\<bar> / ulp)"
  have ulp: "0 < ulp"
    by (simp add: ulp_def)
  from False have r: "roundToDouble x = sgn x * of_int n * ulp"
    by (simp add: roundToDouble_def Let_def ulp_def n_def)
  have "\<bar>of_int n - \<bar>x\<bar> / ulp\<bar> \<le> 1 / 2"
    unfolding n_def by (rule roundTiesToEven_error)
  then have "\<bar>of_int n - \<bar>x\<bar> / ulp\<bar> * ulp \<le> 1 / 2 * ulp"
    using ulp by (simp only: mult_le_cancel_right_pos)
  moreover have "\<bar>of_int n - \<bar>x\<bar> / ulp\<bar> * ulp = \<bar>of_int n * ulp - \<bar>x\<bar>\<bar>"
  proof -
    from ulp have "\<bar>of_int n - \<bar>x\<bar> / ulp\<bar> * ulp = \<bar>(of_int n - \<bar>x\<bar> / ulp) * ulp\<bar>"
      by (intro abs_mult_pos) simp
    also from ulp have "(of_int n - \<bar>x\<bar> / ulp) * ulp = of_int n * ulp - \<bar>x\<bar>"
      by (simp add: left_diff_distrib)
    finally show ?thesis .
  qed
  ultimately have a: "\<bar>of_int n * ulp - \<bar>x\<bar>\<bar> \<le> ulp / 2"
    by simp
  have "\<bar>sgn x * of_int n * ulp - x\<bar> = \<bar>of_int n * ulp - \<bar>x\<bar>\<bar>"
  proof (cases "0 < x")
    case True
    then show ?thesis by simp
  next
    case neg: False
    with False have "x < 0" by simp
    then have "sgn x * of_int n * ulp - x = - (of_int n * ulp - \<bar>x\<bar>)"
      by simp
    then show ?thesis
      by (simp only: abs_minus)
  qed
  with a r show ?thesis
    by (simp add: ulp_def)
qed

lemma roundToDouble_nonneg: "0 \<le> x \<Longrightarrow> 0 \<le> roundToDouble x"
  by (simp add: roundToDouble_def Let_def roundTiesToEven_nonneg sgn_if)

lemma times_100_bounds:
  assumes "0 \<le> s" "s \<le> 1"
  shows "0 \<le> double_times s 100" and "\<bar>double_times s 100 - s * 100\<bar> \<le> 1 / 2 ^ 47"
proof -
  from assms show "0 \<le> double_times s 100"
    by (simp add: double_times_def roundToDouble_nonneg)
  show "\<bar>double_times s 100 - s * 100\<bar> \<le> 1 / 2 ^ 47"
  proof (cases "s = 0")
    case True
    then show ?thesis
      by (simp add: double_times_def roundToDouble_def)
  next
    case False
    with assms have pos: "0 < s * 100" and le: "s * 100 \<le> 100"
      by simp_all
    from exponent_bounds [OF pos] le have "(2::rat) powi exponent (s * 100) < 2 powi 7"
      by simp
    have "exponent (s * 100) < 7"
    proof (rule ccontr)
      assume "\<not> exponent (s * 100) < 7"
      then have "(2::rat) powi 7 \<le> 2 powi exponent (s * 100)"
        by (intro power_int_increasing) simp_all
      with \<open>2 powi exponent (s * 100) < 2 powi 7\<close> show False
        by simp
    qed
    then have "max (exponent (s * 100)) (- 1022) - 52 \<le> - 46"
      by simp
    then have "(2::rat) powi (max (exponent (s * 100)) (- 1022) - 52) \<le> 2 powi (- 46)"
      by (intro power_int_increasing) simp_all
    moreover from pos have "\<bar>s * 100\<bar> = s * 100"
      by simp
    moreover note roundToDouble_error [of "s * 100"]
    ultimately have "\<bar>roundToDouble (s * 100) - s * 100\<bar> \<le> 2 powi (- 46) / 2"
      by simp
    then show ?thesis
      by (simp add: double_times_def power_int_minus)
  qed
qed


lemma nearest_integer:
  fixes p :: rat
  assumes "0 \<le> p"
  defines "n \<equiv> nat \<lfloor>p + 1 / 2\<rfloor>"
  shows "\<bar>of_nat n - p\<bar> \<le> 1 / 2"
    and "\<bar>of_nat n - p\<bar> \<le> \<bar>of_int m - p\<bar>"
    and "\<bar>of_int m - p\<bar> = \<bar>of_nat n - p\<bar> \<Longrightarrow> m \<le> int n"
proof -
  define k where "k = \<lfloor>p + 1 / 2\<rfloor>"
  have k: "of_int k \<le> p + 1 / 2" "p + 1 / 2 < of_int k + 1"
    unfolding k_def by linarith+
  from assms(1) have "0 \<le> k"
    unfolding k_def by simp
  then have n: "rat_of_nat n = of_int k" "int n = k"
    unfolding n_def k_def by simp_all
  from k show "\<bar>of_nat n - p\<bar> \<le> 1 / 2"
    unfolding n by linarith
  have far: "1 / 2 < \<bar>of_int m - p\<bar>" if "k < m"
  proof -
    from that have "of_int k + 1 \<le> rat_of_int m"
      by (metis of_int_1 of_int_add of_int_le_iff zless_imp_add1_zle)
    with k show ?thesis
      by linarith
  qed
  have near: "1 / 2 \<le> \<bar>of_int m - p\<bar>" if "m < k"
  proof -
    from that have "rat_of_int m + 1 \<le> of_int k"
      by (metis of_int_1 of_int_add of_int_le_iff zless_imp_add1_zle)
    with k show ?thesis
      by linarith
  qed
  show "\<bar>of_nat n - p\<bar> \<le> \<bar>of_int m - p\<bar>"
  proof (cases m k rule: linorder_cases)
    case less
    with near k show ?thesis unfolding n by linarith
  next
    case equal
    then show ?thesis unfolding n by simp
  next
    case greater
    with far k show ?thesis unfolding n by linarith
  qed
  show "m \<le> int n" if "\<bar>of_int m - p\<bar> = \<bar>of_nat n - p\<bar>"
  proof (rule ccontr)
    assume "\<not> m \<le> int n"
    then have "k < m"
      by (simp add: n)
    from far [OF this] that k show False
      unfolding n by linarith
  qed
qed

text \<open>
  Claim C9. For every confidence score \<open>s\<close> in [0,1], the text rendered is the decimal
  digits of an integer \<open>n\<close>, with no decimal places, followed by \<^verbatim>\<open>%\<close>, where \<open>n\<close> is the
  integer nearest to the product of \<open>s\<close> and 100 that \<^verbatim>\<open>*\<close> computes (no integer is
  nearer, and of two equally near ones \<open>n\<close> is the larger, so the product is rounded and
  not truncated); that product is the double nearest to \<open>s * 100\<close>, so that \<open>n\<close> is within
  \<open>1 / 2 + 1 / 2 ^ 47\<close> of \<open>s * 100\<close> itself. In particular the score 0.873 renders as
  \<^verbatim>\<open>87%\<close> and the score 0.005 as \<^verbatim>\<open>1%\<close>, a score being the double nearest to its decimal
  literal.
\<close>

theorem confidence_percent_nearest:
  "(0 \<le> s \<and> s \<le> 1 \<longrightarrow>
      (\<exists>n. confidence_text s = Some (decimal n @ ''%'')
         \<and> (\<forall>m. \<bar>of_nat n - double_times s 100\<bar> \<le> \<bar>of_int m - double_times s 100\<bar>)
         \<and> (\<forall>m. \<bar>of_int m - double_times s 100\<bar> = \<bar>of_nat n - double_times s 100\<bar>
               \<longrightarrow> m \<le> int n)
         \<and> \<bar>of_nat n - s * 100\<bar> \<le> 1 / 2 + 1 / 2 ^ 47))
   \<and> confidence_text (roundToDouble (873 / 1000)) = Some ''87%''
   \<and> confidence_text (roundToDouble (5 / 1000)) = Some ''1%''"
proof (intro conjI impI)
  assume s: "0 \<le> s \<and> s \<le> 1"
  define p where "p = double_times s 100"
  define n where "n = nat \<lfloor>p + 1 / 2\<rfloor>"
  define eps :: rat where "eps = 1 / 2 ^ 47"
  have eps: "eps \<le> 1"
    by (simp add: eps_def)
  from s have p: "0 \<le> p" "\<bar>p - s * 100\<bar> \<le> eps"
    unfolding p_def eps_def using times_100_bounds [of s] by blast+
  from s p(2) eps have "p \<le> 101"
    by linarith
  with p(1) have "\<not> 10 ^ 21 \<le> \<bar>p\<bar>" "\<not> p < 0" "\<bar>p\<bar> = p"
    by simp_all
  then have "confidence_text s = Some (decimal n @ ''%'')"
    by (simp add: confidence_text_def toFixed0_def n_def flip: p_def)
  moreover have "\<forall>m. \<bar>of_nat n - p\<bar> \<le> \<bar>of_int m - p\<bar>"
    unfolding n_def using nearest_integer(2) [OF p(1)] by blast
  moreover have "\<forall>m. \<bar>of_int m - p\<bar> = \<bar>of_nat n - p\<bar> \<longrightarrow> m \<le> int n"
    unfolding n_def using nearest_integer(3) [OF p(1)] by blast
  moreover have "\<bar>of_nat n - s * 100\<bar> \<le> 1 / 2 + eps"
    using nearest_integer(1) [OF p(1)] p(2) unfolding n_def by linarith
  ultimately show "\<exists>n. confidence_text s = Some (decimal n @ ''%'')
         \<and> (\<forall>m. \<bar>of_nat n - double_times s 100\<bar> \<le> \<bar>of_int m - double_times s 100\<bar>)
         \<and> (\<forall>m. \<bar>of_int m - double_times s 100\<bar> = \<bar>of_nat n - double_times s 100\<bar>
               \<longrightarrow> m \<le> int n)
         \<and> \<bar>of_nat n - s * 100\<bar> \<le> 1 / 2 + 1 / 2 ^ 47"
    unfolding p_def eps_def by blast
next
  show "confidence_text (roundToDouble (873 / 1000)) = Some ''87%''"
    by code_simp
next
  show "confidence_text (roundToDouble (5 / 1000)) = Some ''1%''"
    by code_simp
qed

lemma score_873: "roundToDouble (873 / 1000) = 3931642474694443 / 4503599627370496"
  by code_simp

theorem confidence_percent_nearest_witness:
  "0 \<le> roundToDouble (873 / 1000) \<and> roundToDouble (873 / 1000) \<le> 1
   \<and> (\<exists>n. confidence_text (roundToDouble (873 / 1000)) = Some (decimal n @ ''%'')
         \<and> \<bar>of_nat n - roundToDouble (873 / 1000) * 100\<bar> \<le> 1 / 2 + 1 / 2 ^ 47)"
proof -
  have "0 \<le> roundToDouble (873 / 1000) \<and> roundToDouble (873 / 1000) \<le> 1"
    by (simp add: score_873)
  with confidence_percent_nearest [of "roundToDouble (873 / 1000)"] show ?thesis
    by blast
qed

end
